theory Spec2Isabelle
  imports Complex_Main "HOL-Library.Word"
begin

section \<open>JavaScript values used by the payment gate\<close>

text \<open>
  Strings are \<^typ>\<open>string\<close>. A \<^verbatim>\<open>bigint\<close> is an \<^typ>\<open>int\<close>. A \<^verbatim>\<open>number\<close> that
  holds a lamport count is an \<^typ>\<open>int\<close> too: the RPC node reports lamports as unsigned
  integers, and additions and comparisons of integers are exact in a double below \<open>2^53\<close>.
  A \<^verbatim>\<open>number\<close> that holds a price or an exchange rate is a \<^typ>\<open>real\<close>: division,
  multiplication and \<^verbatim>\<open>Math.ceil\<close> are taken exactly, without the rounding of a double.
  A \<^verbatim>\<open>Buffer\<close> is a list of bytes.
\<close>

type_synonym buffer = "8 word list"

text \<open>\<^verbatim>\<open>String.prototype.trim\<close>, on the ASCII white space characters.\<close>

definition is_space :: "char \<Rightarrow> bool" where
  "is_space c =
     (c = CHR '' '' \<or> c = CHR 0x09 \<or> c = CHR 0x0A \<or> c = CHR 0x0B \<or> c = CHR 0x0C \<or> c = CHR 0x0D)"

definition trim :: "string \<Rightarrow> string" where
  "trim s = rev (dropWhile is_space (rev (dropWhile is_space s)))"

text \<open>The decimal text of an integer, as a template literal \<^verbatim>\<open>${n}\<close> prints it.\<close>

definition digit_char :: "nat \<Rightarrow> char" where
  "digit_char d = ''0123456789'' ! d"

fun show_nat :: "nat \<Rightarrow> string" where
  "show_nat n = (if n < 10 then [digit_char n] else show_nat (n div 10) @ [digit_char (n mod 10)])"

declare show_nat.simps [simp del]

definition show_int :: "int \<Rightarrow> string" where
  "show_int i = (if i < 0 then CHR ''-'' # show_nat (nat (- i)) else show_nat (nat i))"

section \<open>The ledger as the RPC client shows it\<close>

text \<open>
  A parsed transaction, with the fields the gate reads. A field that optional chaining
  (\<^verbatim>\<open>ix?.parsed?.info?.destination\<close>) may find absent is an option. \<open>ptype\<close> is the
  field \<^verbatim>\<open>parsed.type\<close>. \<open>err\<close> is \<^verbatim>\<open>meta.err\<close>, rendered as text when it is not null.
  \<open>accountKeys\<close> holds the base58 text of each account key, the fee payer (the first
  signer) first.
\<close>

record transfer_info =
  destination :: "string option"
  lamports :: "int option"

record parsed_data =
  ptype :: "string option"
  info :: "transfer_info option"

record instruction =
  program :: "string option"
  parsed :: "parsed_data option"

record tx_meta =
  err :: "string option"

record parsed_tx =
  meta :: "tx_meta option"
  instructions :: "instruction list"
  accountKeys :: "string list"

datatype commitment = Processed | Confirmed | Finalized

text \<open>
  The RPC client (\<^verbatim>\<open>Connection\<close> of the Solana library). A call that throws returns
  \<open>Inl\<close> with the message of the exception. \<open>getParsedTransaction\<close> returns \<open>None\<close> for
  \<^verbatim>\<open>null\<close>: the node does not know the transaction at that commitment.
\<close>

record connection =
  getParsedTransaction :: "string \<Rightarrow> commitment \<Rightarrow> string + parsed_tx option"
  sendRawTransaction :: "buffer \<Rightarrow> string + string"

text \<open>
  The library functions the gate calls. \<open>PublicKey_toBase58 s\<close> is
  \<^verbatim>\<open>new PublicKey(s).toBase58()\<close>, \<open>None\<close> when the constructor throws.
  \<open>deserialize raw\<close> is the signature list of \<^verbatim>\<open>VersionedTransaction.deserialize(raw)\<close>,
  \<open>None\<close> when it throws. \<open>base64_decode\<close> is \<^verbatim>\<open>Buffer.from(s, "base64")\<close>.
\<close>

record lib =
  PublicKey_toBase58 :: "string \<Rightarrow> string option"
  deserialize :: "buffer \<Rightarrow> buffer list option"
  bs58_encode :: "buffer \<Rightarrow> string"
  base64_decode :: "string \<Rightarrow> buffer"

text \<open>The reads of one instruction, with the defaults of \<^verbatim>\<open>??\<close>.\<close>

definition ix_program :: "instruction \<Rightarrow> string" where
  "ix_program ix = (case program ix of None \<Rightarrow> '''' | Some p \<Rightarrow> p)"

definition ix_type :: "instruction \<Rightarrow> string" where
  "ix_type ix =
     (case parsed ix of None \<Rightarrow> ''''
      | Some p \<Rightarrow> (case ptype p of None \<Rightarrow> '''' | Some t \<Rightarrow> t))"

definition ix_info :: "instruction \<Rightarrow> transfer_info option" where
  "ix_info ix = (case parsed ix of None \<Rightarrow> None | Some p \<Rightarrow> info p)"

definition ix_destination :: "instruction \<Rightarrow> string" where
  "ix_destination ix =
     (case ix_info ix of None \<Rightarrow> ''''
      | Some i \<Rightarrow> (case destination i of None \<Rightarrow> '''' | Some d \<Rightarrow> d))"

definition ix_lamports :: "instruction \<Rightarrow> int" where
  "ix_lamports ix =
     (case ix_info ix of None \<Rightarrow> 0
      | Some i \<Rightarrow> (case lamports i of None \<Rightarrow> 0 | Some n \<Rightarrow> n))"

text \<open>\<^verbatim>\<open>tx.meta?.err\<close> as a condition: true when the field holds a non-empty value.\<close>

definition meta_err :: "parsed_tx \<Rightarrow> bool" where
  "meta_err tx =
     (case meta tx of None \<Rightarrow> False
      | Some m \<Rightarrow> (case err m of None \<Rightarrow> False | Some e \<Rightarrow> e \<noteq> ''''))"

section \<open>verifySolPayment: the reference form\<close>

datatype PaymentCheckResult =
  CheckOk string int string
  | CheckFail string

text \<open>
  The loop over the instructions of \<^verbatim>\<open>verifySolPayment\<close>; \<open>paidLamports\<close> is the
  accumulator, \<open>treasury\<close> the text \<^verbatim>\<open>treasury.toBase58()\<close>. The test
  \<^verbatim>\<open>Number.isFinite(lamports)\<close> holds of every integer.
\<close>

fun verifySolPayment_loop :: "string \<Rightarrow> instruction list \<Rightarrow> int \<Rightarrow> int" where
  "verifySolPayment_loop treasury [] paidLamports = paidLamports"
| "verifySolPayment_loop treasury (ix # ixs) paidLamports =
     (if ix_program ix \<noteq> ''system'' \<or> ix_type ix \<noteq> ''transfer''
      then verifySolPayment_loop treasury ixs paidLamports
      else if ix_destination ix = ''''
      then verifySolPayment_loop treasury ixs paidLamports
      else if ix_destination ix = treasury
      then verifySolPayment_loop treasury ixs (paidLamports + ix_lamports ix)
      else verifySolPayment_loop treasury ixs paidLamports)"

definition verifySolPayment ::
  "lib \<Rightarrow> connection \<Rightarrow> string \<Rightarrow> string \<Rightarrow> int \<Rightarrow> string + PaymentCheckResult" where
  "verifySolPayment L conn treasuryAddress txSignature0 requiredLamports =
     (let txSignature = trim txSignature0 in
      if txSignature = '''' then Inr (CheckFail ''missing tx signature'')
      else
        (case PublicKey_toBase58 L treasuryAddress of
           None \<Rightarrow> Inr (CheckFail ''invalid treasury address'')
         | Some treasury \<Rightarrow>
             (case getParsedTransaction conn txSignature Confirmed of
                Inl e \<Rightarrow> Inl e
              | Inr None \<Rightarrow> Inr (CheckFail ''transaction not found (yet)'')
              | Inr (Some tx) \<Rightarrow>
                  if meta_err tx then Inr (CheckFail ''transaction failed'')
                  else
                    (let paidLamports = verifySolPayment_loop treasury (instructions tx) 0 in
                     if paidLamports < requiredLamports
                     then Inr (CheckFail (''insufficient payment: paid '' @ show_int paidLamports
                            @ '' lamports, require '' @ show_int requiredLamports))
                     else Inr (CheckOk txSignature paidLamports treasury)))))"

section \<open>settleAndVerifyPayment: the blob form\<close>

datatype VerifyResult =
  VerifyOk string "string option" int
  | VerifyFail string

text \<open>
  The signature of the transaction: the one \<^verbatim>\<open>sendRawTransaction\<close> returns, and when
  that call throws, the first signature of the deserialized bytes, if there is one and it
  is not empty. \<open>None\<close> is \<^verbatim>\<open>null\<close>.
\<close>

definition first_signature :: "lib \<Rightarrow> buffer \<Rightarrow> string option" where
  "first_signature L raw =
     (case deserialize L raw of
        None \<Rightarrow> None
      | Some sigs \<Rightarrow>
          (case sigs of
             [] \<Rightarrow> None
           | first # _ \<Rightarrow> if first \<noteq> [] then Some (bs58_encode L first) else None))"

definition settle_sig :: "lib \<Rightarrow> connection \<Rightarrow> buffer \<Rightarrow> string option" where
  "settle_sig L conn raw =
     (case sendRawTransaction conn raw of
        Inr s \<Rightarrow> Some s
      | Inl _ \<Rightarrow> first_signature L raw)"

fun settleAndVerifyPayment_loop :: "string \<Rightarrow> instruction list \<Rightarrow> int \<Rightarrow> int" where
  "settleAndVerifyPayment_loop treasuryAddress [] paid = paid"
| "settleAndVerifyPayment_loop treasuryAddress (ix # ixs) paid =
     (if ix_program ix \<noteq> ''system'' \<or> ix_type ix \<noteq> ''transfer''
      then settleAndVerifyPayment_loop treasuryAddress ixs paid
      else if ix_destination ix = treasuryAddress
      then settleAndVerifyPayment_loop treasuryAddress ixs (paid + ix_lamports ix)
      else settleAndVerifyPayment_loop treasuryAddress ixs paid)"

text \<open>\<^verbatim>\<open>accountKeys?.[0]?.pubkey?.toBase58?.()\<close>: the first account key, if any.\<close>

definition first_account_key :: "parsed_tx \<Rightarrow> string option" where
  "first_account_key tx = (case accountKeys tx of [] \<Rightarrow> None | k # _ \<Rightarrow> Some k)"

text \<open>The part of \<^verbatim>\<open>settleAndVerifyPayment\<close> under the comment "Confirm + parse".\<close>

definition confirm_and_parse ::
  "connection \<Rightarrow> string \<Rightarrow> int \<Rightarrow> string \<Rightarrow> string + VerifyResult" where
  "confirm_and_parse conn sig requiredLamports treasuryAddress =
     (case getParsedTransaction conn sig Confirmed of
        Inl e \<Rightarrow> Inl e
      | Inr None \<Rightarrow> Inr (VerifyFail ''transaction not found/confirmed yet'')
      | Inr (Some tx) \<Rightarrow>
          if meta_err tx then Inr (VerifyFail ''transaction failed'')
          else
            (let paid = settleAndVerifyPayment_loop treasuryAddress (instructions tx) 0 in
             if paid < requiredLamports
             then Inr (VerifyFail (''insufficient payment: paid='' @ show_int paid
                    @ '' require='' @ show_int requiredLamports))
             else Inr (VerifyOk sig (first_account_key tx) paid)))"

definition settleAndVerifyPayment ::
  "lib \<Rightarrow> connection \<Rightarrow> string \<Rightarrow> int \<Rightarrow> string \<Rightarrow> string + VerifyResult" where
  "settleAndVerifyPayment L conn signedTxBase64 requiredLamports treasuryAddress =
     (let raw = base64_decode L signedTxBase64 in
      if raw = [] then Inr (VerifyFail ''empty transaction'')
      else
        (case settle_sig L conn raw of
           None \<Rightarrow> Inr (VerifyFail ''could not determine tx signature'')
         | Some sig \<Rightarrow>
             if sig = '''' then Inr (VerifyFail ''could not determine tx signature'')
             else confirm_and_parse conn sig requiredLamports treasuryAddress))"

section \<open>Pricing and the quote\<close>

definition usdToLamports :: "real \<Rightarrow> real \<Rightarrow> int" where
  "usdToLamports usd solUsd =
     (let sol = usd / solUsd;
          n = \<lceil>sol * 1000000000\<rceil>
      in max 1 n)"

datatype json =
  JNull
  | JBool bool
  | JNum real
  | JStr string
  | JArr "json list"
  | JObj "(string \<times> json) list"

text \<open>
  What the handlers read from outside the repository's own code: the parsed configuration
  (\<open>Inl\<close> when the schema rejects the process environment), the constants of the vendored
  configuration module, the libraries, the RPC client for a URL, the price feed (\<open>Inl\<close>
  when \<^verbatim>\<open>fetchSolUsdPrice\<close> throws), JSON and base64 coding, the vendored payload
  schema (\<open>safeParse\<close>, giving \<^verbatim>\<open>data.payload.transaction\<close> on success),
  \<^verbatim>\<open>Number.prototype.toFixed(4)\<close>, and the two payloads behind the gate. \<open>topSignals\<close>
  stands for the tail of the Polymarket handler: the fields of its answer after
  \<^verbatim>\<open>ok\<close> and \<^verbatim>\<open>paid\<close>, \<open>Inl\<close> when the market fetch throws.
\<close>

record X402Config =
  SOLANA_RPC_URL :: string
  X402_TREASURY_ADDRESS :: string
  X402_PRICE_USD :: real
  X402_DEV_BYPASS :: bool

record request =
  url :: string
  header :: "string \<Rightarrow> string option"

record env =
  readX402ConfigFromEnv :: "string + X402Config"
  TREASURY_ADDRESS :: string
  SOL_NETWORK :: string
  libs :: lib
  Connection :: "string \<Rightarrow> connection"
  fetchSolUsdPrice :: "string + real"
  JSON_stringify :: "json \<Rightarrow> string"
  JSON_parse :: "string \<Rightarrow> string + json"
  base64_encode :: "string \<Rightarrow> string"
  utf8_toString :: "buffer \<Rightarrow> string"
  SolPaymentPayloadSchema_safeParse :: "json \<Rightarrow> string option"
  toFixed4 :: "real \<Rightarrow> string"
  demoSignal :: json
  topSignals :: "request \<Rightarrow> string + (string \<times> json) list"

text \<open>
  Header names are matched without regard to case: the table of a request is keyed by
  the lower-cased name, and a lookup lower-cases the name it is given.
\<close>

definition to_lower :: "char \<Rightarrow> char" where
  "to_lower c =
     (case map_of (zip ''ABCDEFGHIJKLMNOPQRSTUVWXYZ'' ''abcdefghijklmnopqrstuvwxyz'') c of
        None \<Rightarrow> c
      | Some l \<Rightarrow> l)"

definition headers_get :: "request \<Rightarrow> string \<Rightarrow> string option" where
  "headers_get req name = header req (map to_lower name)"

text \<open>\<^verbatim>\<open>a || b\<close> on a header value: \<open>b\<close> when \<open>a\<close> is null or the empty string.\<close>

definition or_else :: "string option \<Rightarrow> string \<Rightarrow> string" where
  "or_else a b = (case a of None \<Rightarrow> b | Some v \<Rightarrow> if v = '''' then b else v)"

definition getX402TreasuryAddress :: "env \<Rightarrow> X402Config \<Rightarrow> string" where
  "getX402TreasuryAddress E cfg =
     (if TREASURY_ADDRESS E \<noteq> '''' then TREASURY_ADDRESS E else X402_TREASURY_ADDRESS cfg)"

definition getX402Network :: "env \<Rightarrow> string" where
  "getX402Network E = SOL_NETWORK E"

text \<open>
  The quote. A field whose value is \<^verbatim>\<open>undefined\<close> does not reach the JSON text, so
  it is left out of the object.
\<close>

definition buildAccepts ::
  "env \<Rightarrow> X402Config \<Rightarrow> int \<Rightarrow> string \<Rightarrow> string \<Rightarrow> real option \<Rightarrow> real option \<Rightarrow> json" where
  "buildAccepts E cfg amount resource description usdAmount solPrice =
     JObj ([(''scheme'', JStr ''exact''),
            (''network'', JStr (getX402Network E)),
            (''maxAmountRequired'', JStr (show_int amount)),
            (''asset'', JStr ''native''),
            (''payTo'', JStr (getX402TreasuryAddress E cfg)),
            (''resource'', JStr resource),
            (''description'', JStr description),
            (''maxTimeoutSeconds'', JNum 300)]
           @ (case usdAmount of
                None \<Rightarrow> []
              | Some u \<Rightarrow>
                  [(''extra'',
                    JObj ((''usdAmount'', JStr (toFixed4 E u))
                          # (case solPrice of None \<Rightarrow> [] | Some p \<Rightarrow> [(''solPrice'', JNum p)])))]))"

definition create402Body :: "json \<Rightarrow> string option \<Rightarrow> json" where
  "create402Body accepts error =
     JObj [(''x402Version'', JNum 1),
           (''error'', JStr (case error of None \<Rightarrow> ''Payment required'' | Some e \<Rightarrow> e)),
           (''accepts'', JArr [accepts])]"

definition encodeBase64Json :: "env \<Rightarrow> json \<Rightarrow> string" where
  "encodeBase64Json E obj = base64_encode E (JSON_stringify E obj)"

definition decodeBase64Json :: "env \<Rightarrow> string \<Rightarrow> string + json" where
  "decodeBase64Json E v = JSON_parse E (utf8_toString E (base64_decode (libs E) v))"

section \<open>extractPaymentFromHeaders\<close>

datatype ParsedPayment =
  ParsedOk string
  | ParsedFail string

definition extractPaymentFromHeaders :: "env \<Rightarrow> request \<Rightarrow> ParsedPayment" where
  "extractPaymentFromHeaders E req =
     (let raw = or_else (headers_get req ''X-PAYMENT'')
                  (or_else (headers_get req ''PAYMENT-SIGNATURE'') '''') in
      if raw = '''' then ParsedFail ''missing X-PAYMENT header''
      else
        (case decodeBase64Json E raw of
           Inl message \<Rightarrow>
             ParsedFail (if message = '''' then ''bad X-PAYMENT encoding'' else message)
         | Inr decoded \<Rightarrow>
             (case SolPaymentPayloadSchema_safeParse E decoded of
                None \<Rightarrow> ParsedFail ''invalid payment payload''
              | Some transaction \<Rightarrow> ParsedOk transaction)))"

section \<open>The handlers of the two protected endpoints\<close>

text \<open>
  A response is the status, the JSON body and the extra headers of \<^verbatim>\<open>c.json\<close>. A
  handler that throws is answered by the framework with status 500 and the text
  \<^verbatim>\<open>Internal Server Error\<close>. Beside the response a handler returns the calls it made to
  the outside, in order.
\<close>

record response =
  status :: nat
  body :: json
  headers :: "(string \<times> string) list"

datatype call =
  FetchSolUsdPrice
  | VerifySolPayment string
  | SettleAndVerifyPayment string
  | TopSignals

definition c_json :: "json \<Rightarrow> nat \<Rightarrow> (string \<times> string) list \<Rightarrow> response" where
  "c_json obj code hs = \<lparr>status = code, body = obj, headers = hs\<rparr>"

definition internal_server_error :: response where
  "internal_server_error = \<lparr>status = 500, body = JStr ''Internal Server Error'', headers = []\<rparr>"

text \<open>The two lines that answer 402: the body, and the body again in a header.\<close>

definition payment_required :: "env \<Rightarrow> json \<Rightarrow> string option \<Rightarrow> response" where
  "payment_required E accepts error =
     (let b = create402Body accepts error in
      c_json b 402 [(''X-Payment-Required'', encodeBase64Json E b)])"

text \<open>The value of the reference header, as both handlers read it.\<close>

definition paymentTx_header :: "request \<Rightarrow> string" where
  "paymentTx_header req =
     trim (or_else (headers_get req ''x-payment-tx'') (or_else (headers_get req ''X-Payment-Tx'') ''''))"

text \<open>The answers that both handlers build in the same words.\<close>

definition pricing_unavailable_daily :: response where
  "pricing_unavailable_daily =
     c_json (JObj [(''ok'', JBool False),
       (''error'', JStr ''pricing unavailable''),
       (''reason'', JStr ''Failed to fetch SOL/USD price from upstream''),
       (''tip'', JStr ''Retry in a few seconds or set X402_DEV_BYPASS=true for local dev.'')]) 502 []"

definition not_configured_daily :: response where
  "not_configured_daily =
     c_json (JObj [(''ok'', JBool False),
       (''error'', JStr ''server not configured''),
       (''reason'', JStr ''X402_TREASURY_ADDRESS is required when X402_DEV_BYPASS=false''),
       (''fix'', JStr ''Set X402_TREASURY_ADDRESS in your .env (Solana address that receives payments).'')])
       500 []"

definition signals_daily :: "env \<Rightarrow> request \<Rightarrow> call list \<times> response" where
  "signals_daily E req =
     (case readX402ConfigFromEnv E of
        Inl _ \<Rightarrow> ([], internal_server_error)
      | Inr cfg \<Rightarrow>
          if X402_DEV_BYPASS cfg
          then ([], c_json (JObj [(''ok'', JBool True), (''paid'', JBool False),
                                  (''bypass'', JBool True), (''signal'', demoSignal E)]) 200 [])
          else
            (let treasury = getX402TreasuryAddress E cfg in
             if treasury = '''' then ([], not_configured_daily)
             else
               (case (case fetchSolUsdPrice E of Inl _ \<Rightarrow> None | Inr p \<Rightarrow> Some p) of
                  None \<Rightarrow> ([FetchSolUsdPrice], pricing_unavailable_daily)
                | Some solUsd \<Rightarrow>
                    if solUsd = 0 then ([FetchSolUsdPrice], pricing_unavailable_daily)
                    else
                      (let requiredLamports = usdToLamports (X402_PRICE_USD cfg) solUsd;
                           accepts = buildAccepts E cfg requiredLamports (url req)
                                       ''Unlock daily signal'' (Some (X402_PRICE_USD cfg)) (Some solUsd);
                           paymentTx = paymentTx_header req
                       in
                       if paymentTx \<noteq> ''''
                       then
                         (case verifySolPayment (libs E) (Connection E (SOLANA_RPC_URL cfg)) treasury
                                 paymentTx requiredLamports of
                            Inl _ \<Rightarrow>
                              ([FetchSolUsdPrice, VerifySolPayment paymentTx], internal_server_error)
                          | Inr (CheckFail reason) \<Rightarrow>
                              ([FetchSolUsdPrice, VerifySolPayment paymentTx],
                               payment_required E accepts (Some reason))
                          | Inr (CheckOk txSig paidLamports paidTo) \<Rightarrow>
                              ([FetchSolUsdPrice, VerifySolPayment paymentTx],
                               c_json (JObj [(''ok'', JBool True), (''paid'', JBool True),
                                 (''payment'', JObj [(''network'', JStr ''solana''),
                                    (''transaction'', JStr txSig),
                                    (''paidLamports'', JStr (show_int paidLamports)),
                                    (''payer'', JNull),
                                    (''flow'', JStr ''txSig'')]),
                                 (''signal'', demoSignal E)]) 200 []))
                       else
                         (case extractPaymentFromHeaders E req of
                            ParsedFail _ \<Rightarrow> ([FetchSolUsdPrice], payment_required E accepts None)
                          | ParsedOk txBase64 \<Rightarrow>
                              (case settleAndVerifyPayment (libs E) (Connection E (SOLANA_RPC_URL cfg))
                                      txBase64 requiredLamports treasury of
                                 Inl _ \<Rightarrow>
                                   ([FetchSolUsdPrice, SettleAndVerifyPayment txBase64],
                                    internal_server_error)
                               | Inr (VerifyFail reason) \<Rightarrow>
                                   ([FetchSolUsdPrice, SettleAndVerifyPayment txBase64],
                                    payment_required E accepts (Some reason))
                               | Inr (VerifyOk signature payer paidLamports) \<Rightarrow>
                                   ([FetchSolUsdPrice, SettleAndVerifyPayment txBase64],
                                    c_json (JObj [(''ok'', JBool True), (''paid'', JBool True),
                                      (''payment'', JObj [(''network'', JStr ''solana''),
                                         (''transaction'', JStr signature),
                                         (''paidLamports'', JStr (show_int paidLamports)),
                                         (''payer'',
                                          (case payer of None \<Rightarrow> JNull | Some p \<Rightarrow> JStr p))]),
                                      (''signal'', demoSignal E)]) 200 [])))))))"

text \<open>
  The tail of the Polymarket handler, reached in bypass mode and after a verified payment:
  the market fetch and the answer with \<^verbatim>\<open>paid: !cfg.X402_DEV_BYPASS\<close>.
\<close>

definition top_signals_response :: "env \<Rightarrow> X402Config \<Rightarrow> request \<Rightarrow> response" where
  "top_signals_response E cfg req =
     (case topSignals E req of
        Inl _ \<Rightarrow> internal_server_error
      | Inr rest \<Rightarrow>
          c_json (JObj ((''ok'', JBool True) # (''paid'', JBool (\<not> X402_DEV_BYPASS cfg)) # rest))
            200 [])"

definition not_configured_top :: response where
  "not_configured_top =
     c_json (JObj [(''ok'', JBool False),
       (''error'', JStr ''server not configured''),
       (''reason'', JStr ''X402_TREASURY_ADDRESS is required when X402_DEV_BYPASS=false'')]) 500 []"

definition pricing_unavailable_top :: response where
  "pricing_unavailable_top =
     c_json (JObj [(''ok'', JBool False),
       (''error'', JStr ''pricing unavailable''),
       (''reason'', JStr ''Failed to fetch SOL/USD price from upstream'')]) 502 []"

definition signals_polymarket_top :: "env \<Rightarrow> request \<Rightarrow> call list \<times> response" where
  "signals_polymarket_top E req =
     (case readX402ConfigFromEnv E of
        Inl _ \<Rightarrow> ([], internal_server_error)
      | Inr cfg \<Rightarrow>
          if \<not> X402_DEV_BYPASS cfg
          then
            (let treasury = getX402TreasuryAddress E cfg in
             if treasury = '''' then ([], not_configured_top)
             else
               (case (case fetchSolUsdPrice E of Inl _ \<Rightarrow> None | Inr p \<Rightarrow> Some p) of
                  None \<Rightarrow> ([FetchSolUsdPrice], pricing_unavailable_top)
                | Some solUsd \<Rightarrow>
                    if solUsd = 0 then ([FetchSolUsdPrice], pricing_unavailable_top)
                    else
                      (let requiredLamports = usdToLamports (X402_PRICE_USD cfg) solUsd;
                           accepts = buildAccepts E cfg requiredLamports (url req)
                                       ''Unlock Polymarket top signals''
                                       (Some (X402_PRICE_USD cfg)) (Some solUsd);
                           paymentTx = paymentTx_header req
                       in
                       if paymentTx \<noteq> ''''
                       then
                         (case verifySolPayment (libs E) (Connection E (SOLANA_RPC_URL cfg)) treasury
                                 paymentTx requiredLamports of
                            Inl _ \<Rightarrow>
                              ([FetchSolUsdPrice, VerifySolPayment paymentTx], internal_server_error)
                          | Inr (CheckFail reason) \<Rightarrow>
                              ([FetchSolUsdPrice, VerifySolPayment paymentTx],
                               payment_required E accepts (Some reason))
                          | Inr (CheckOk txSig paidLamports paidTo) \<Rightarrow>
                              ([FetchSolUsdPrice, VerifySolPayment paymentTx, TopSignals],
                               top_signals_response E cfg req))
                       else
                         (case extractPaymentFromHeaders E req of
                            ParsedFail _ \<Rightarrow> ([FetchSolUsdPrice], payment_required E accepts None)
                          | ParsedOk txBase64 \<Rightarrow>
                              (case settleAndVerifyPayment (libs E) (Connection E (SOLANA_RPC_URL cfg))
                                      txBase64 requiredLamports treasury of
                                 Inl _ \<Rightarrow>
                                   ([FetchSolUsdPrice, SettleAndVerifyPayment txBase64],
                                    internal_server_error)
                               | Inr (VerifyFail reason) \<Rightarrow>
                                   ([FetchSolUsdPrice, SettleAndVerifyPayment txBase64],
                                    payment_required E accepts (Some reason))
                               | Inr (VerifyOk signature payer paidLamports) \<Rightarrow>
                                   ([FetchSolUsdPrice, SettleAndVerifyPayment txBase64, TopSignals],
                                    top_signals_response E cfg req))))))
          else ([TopSignals], top_signals_response E cfg req))"

section \<open>The paid amount in the specification's words\<close>



section \<open>Reading a handler's answer\<close>

text \<open>A field of a JSON object, the first of that name.\<close>

definition json_field :: "json \<Rightarrow> string \<Rightarrow> json option" where
  "json_field j name = (case j of JObj kvs \<Rightarrow> map_of kvs name | _ \<Rightarrow> None)"

text \<open>
  The server reaches the payment gate: the configuration parses to \<open>cfg\<close>, the bypass is
  off, the treasury address is set and the price feed answers \<open>solUsd\<close>, not zero.
\<close>

definition gate_reached :: "env \<Rightarrow> X402Config \<Rightarrow> real \<Rightarrow> bool" where
  "gate_reached E cfg solUsd =
     (readX402ConfigFromEnv E = Inr cfg \<and> \<not> X402_DEV_BYPASS cfg
      \<and> getX402TreasuryAddress E cfg \<noteq> '''' \<and> fetchSolUsdPrice E = Inr solUsd \<and> solUsd \<noteq> 0)"

text \<open>The quote a handler builds for a request, from the price it has just fetched.\<close>

definition fresh_quote :: "env \<Rightarrow> X402Config \<Rightarrow> real \<Rightarrow> request \<Rightarrow> string \<Rightarrow> json" where
  "fresh_quote E cfg solUsd req description =
     buildAccepts E cfg (usdToLamports (X402_PRICE_USD cfg) solUsd) (url req) description
       (Some (X402_PRICE_USD cfg)) (Some solUsd)"

section \<open>A small ledger and server to run the definitions on\<close>

definition transfer_ix :: "string \<Rightarrow> int \<Rightarrow> instruction" where
  "transfer_ix dest n =
     \<lparr>program = Some ''system'',
      parsed = Some \<lparr>ptype = Some ''transfer'',
                      info = Some \<lparr>destination = Some dest, lamports = Some n\<rparr>\<rparr>\<rparr>"

definition memo_ix :: instruction where
  "memo_ix = \<lparr>program = Some ''spl-memo'', parsed = None\<rparr>"

definition demo_tx :: "instruction list \<Rightarrow> parsed_tx" where
  "demo_tx ixs =
     \<lparr>meta = Some \<lparr>err = None\<rparr>, instructions = ixs, accountKeys = [''Payer1'', ''Treasury1'']\<rparr>"

definition failed_tx :: parsed_tx where
  "failed_tx =
     \<lparr>meta = Some \<lparr>err = Some ''InstructionError''\<rparr>,
      instructions = [transfer_ix ''Treasury1'' 1000000], accountKeys = [''Payer1'', ''Treasury1'']\<rparr>"

definition demo_lib :: lib where
  "demo_lib =
     \<lparr>PublicKey_toBase58 = (\<lambda>s. if s = ''Treasury1'' then Some s else None),
      deserialize = (\<lambda>raw. if raw = [1, 2, 3] then Some [[7, 7]] else None),
      bs58_encode = (\<lambda>b. if b = [7, 7] then ''SigA'' else ''SigZ''),
      base64_decode = (\<lambda>s. if s = ''AQID'' then [1, 2, 3] else if s = ''BAUG'' then [4, 5, 6] else [])\<rparr>"

text \<open>
  A node that answers from a table of confirmed transactions and refuses every
  submission (as it does for a transaction that has already landed).
\<close>

definition demo_conn :: "(string \<Rightarrow> parsed_tx option) \<Rightarrow> connection" where
  "demo_conn ledger =
     \<lparr>getParsedTransaction = (\<lambda>sig c. Inr (ledger sig)),
      sendRawTransaction = (\<lambda>raw. Inl ''already processed'')\<rparr>"

text \<open>A node that accepts a submission and answers with the signature \<^verbatim>\<open>SigA\<close>.\<close>

definition open_conn :: "(string \<Rightarrow> parsed_tx option) \<Rightarrow> connection" where
  "open_conn ledger =
     \<lparr>getParsedTransaction = (\<lambda>sig c. Inr (ledger sig)),
      sendRawTransaction = (\<lambda>raw. Inr ''SigA'')\<rparr>"

definition paid_ledger :: "string \<Rightarrow> parsed_tx option" where
  "paid_ledger =
     [''SigA'' \<mapsto> demo_tx [transfer_ix ''Treasury1'' 1000000],
      ''SigB'' \<mapsto> demo_tx [transfer_ix ''Treasury1'' 999999],
      ''SigC'' \<mapsto> demo_tx [transfer_ix ''Treasury1'' 100, memo_ix,
                              transfer_ix ''Other'' 50, transfer_ix ''Treasury1'' 200],
      ''SigF'' \<mapsto> failed_tx]"

text \<open>
  A server priced at 0.25 USD with SOL at 250 USD: 1000000 lamports. The JSON text
  \<^verbatim>\<open>good\<close> decodes to a payload the schema accepts, every other text fails to parse.
\<close>

definition demo_cfg :: "bool \<Rightarrow> X402Config" where
  "demo_cfg bypass =
     \<lparr>SOLANA_RPC_URL = ''http://rpc'', X402_TREASURY_ADDRESS = ''Treasury1'',
      X402_PRICE_USD = 1 / 4, X402_DEV_BYPASS = bypass\<rparr>"

definition demo_env :: "bool \<Rightarrow> (string + (string \<times> json) list) \<Rightarrow> env" where
  "demo_env bypass answer =
     \<lparr>readX402ConfigFromEnv = Inr (demo_cfg bypass),
      TREASURY_ADDRESS = '''',
      SOL_NETWORK = ''solana'',
      libs = demo_lib,
      Connection = (\<lambda>u. demo_conn paid_ledger),
      fetchSolUsdPrice = Inr 250,
      JSON_stringify = (\<lambda>j. ''{}''),
      JSON_parse = (\<lambda>s. if s = ''good'' then Inr (JStr ''AQID'') else Inl ''Unexpected token''),
      base64_encode = (\<lambda>s. s),
      utf8_toString = (\<lambda>b. if b = [1, 2, 3] then ''good'' else ''bad''),
      SolPaymentPayloadSchema_safeParse = (\<lambda>j. case j of JStr s \<Rightarrow> Some s | _ \<Rightarrow> None),
      toFixed4 = (\<lambda>r. ''0.2500''),
      demoSignal = JStr ''signal'',
      topSignals = (\<lambda>r. answer)\<rparr>"

definition demo_request :: "(string \<Rightarrow> string option) \<Rightarrow> request" where
  "demo_request hs = \<lparr>url = ''http://localhost:3333/signals/daily'', header = hs\<rparr>"

section \<open>Running the definitions\<close>

lemmas js_defs = trim_def is_space_def show_int_def show_nat.simps digit_char_def
  to_lower_def headers_get_def or_else_def

lemmas ix_defs = ix_program_def ix_type_def ix_info_def ix_destination_def ix_lamports_def
  meta_err_def first_account_key_def

lemmas demo_defs = transfer_ix_def memo_ix_def demo_tx_def failed_tx_def demo_lib_def
  demo_conn_def open_conn_def paid_ledger_def demo_cfg_def demo_env_def demo_request_def

lemma show_int_1000000: "show_int 1000000 = ''1000000''"
  by (simp add: js_defs)

lemma show_int_999999: "show_int 999999 = ''999999''"
  by (simp add: js_defs)

section \<open>The instruction loops\<close>






section \<open>The amount check\<close>

lemma confirm_and_parse_confirmed:
  assumes "getParsedTransaction conn sig Confirmed = Inr (Some tx)" and "\<not> meta_err tx"
  shows "confirm_and_parse conn sig requiredLamports payTo =
     Inr (if requiredLamports \<le> settleAndVerifyPayment_loop payTo (instructions tx) 0
          then VerifyOk sig (first_account_key tx)
                 (settleAndVerifyPayment_loop payTo (instructions tx) 0)
          else VerifyFail (''insufficient payment: paid=''
                 @ show_int (settleAndVerifyPayment_loop payTo (instructions tx) 0)
                 @ '' require='' @ show_int requiredLamports))"
  using assms by (simp add: confirm_and_parse_def Let_def)

lemma settle_with_sig:
  assumes "base64_decode L blob \<noteq> []"
    and "settle_sig L conn (base64_decode L blob) = Some sig" and "sig \<noteq> ''''"
  shows "settleAndVerifyPayment L conn blob requiredLamports payTo =
           confirm_and_parse conn sig requiredLamports payTo"
  using assms by (simp add: settleAndVerifyPayment_def Let_def)

lemma verifySolPayment_confirmed:
  assumes "trim s \<noteq> ''''" and "PublicKey_toBase58 L treasuryAddress = Some k"
    and "getParsedTransaction conn (trim s) Confirmed = Inr (Some tx)" and "\<not> meta_err tx"
  shows "verifySolPayment L conn treasuryAddress s requiredLamports =
     Inr (if requiredLamports \<le> verifySolPayment_loop k (instructions tx) 0
          then CheckOk (trim s) (verifySolPayment_loop k (instructions tx) 0) k
          else CheckFail (''insufficient payment: paid ''
                 @ show_int (verifySolPayment_loop k (instructions tx) 0)
                 @ '' lamports, require '' @ show_int requiredLamports))"
  using assms by (simp add: verifySolPayment_def Let_def)

text \<open>
  Claim C3, as the specification states it, fails on \<^verbatim>\<open>verifySolPayment\<close>: for a
  confirmed transfer of 999999 against a required 1000000 the reason is worded
  \<^verbatim>\<open>paid 999999 lamports, require 1000000\<close>, not \<^verbatim>\<open>paid=999999 require=1000000\<close>.
\<close>

theorem amount_check_reason_counterexample:
  "verifySolPayment demo_lib (demo_conn paid_ledger) ''Treasury1'' ''SigB'' 1000000
     = Inr (CheckFail ''insufficient payment: paid 999999 lamports, require 1000000'')
   \<and> ''insufficient payment: paid 999999 lamports, require 1000000''
       \<noteq> ''insufficient payment: paid='' @ show_int 999999 @ '' require='' @ show_int 1000000"
proof -
  have t: "trim ''SigB'' = ''SigB''" by (simp add: js_defs)
  have "verifySolPayment demo_lib (demo_conn paid_ledger) ''Treasury1'' ''SigB'' 1000000
     = Inr (CheckFail ''insufficient payment: paid 999999 lamports, require 1000000'')"
    by (simp add: verifySolPayment_def t demo_defs ix_defs show_int_999999 show_int_1000000)
  then show ?thesis by (simp add: show_int_999999 show_int_1000000)
qed

text \<open>
  Claim C3, amended. For a confirmed transaction without an execution error and a required
  amount, \<^verbatim>\<open>settleAndVerifyPayment\<close> returns the verified result, with the signature, the
  first account key of the transaction as payer and the computed sum as paid amount, if
  and only if the sum is at least the required amount; otherwise it returns the failure
  with the reason \<^verbatim>\<open>insufficient payment: paid=<paid> require=<required>\<close>.
  \<^verbatim>\<open>verifySolPayment\<close> decides by the same comparison, but its verified result carries the
  signature, the sum and the treasury key (no payer), and its reason reads
  \<^verbatim>\<open>insufficient payment: paid <paid> lamports, require <required>\<close>.
\<close>

theorem amount_check:
  "(base64_decode L blob \<noteq> [] \<and> settle_sig L conn (base64_decode L blob) = Some sig \<and> sig \<noteq> ''''
      \<and> getParsedTransaction conn sig Confirmed = Inr (Some tx) \<and> \<not> meta_err tx \<longrightarrow>
      settleAndVerifyPayment L conn blob requiredLamports payTo =
        Inr (if requiredLamports \<le> settleAndVerifyPayment_loop payTo (instructions tx) 0
             then VerifyOk sig (first_account_key tx)
                    (settleAndVerifyPayment_loop payTo (instructions tx) 0)
             else VerifyFail (''insufficient payment: paid=''
                    @ show_int (settleAndVerifyPayment_loop payTo (instructions tx) 0)
                    @ '' require='' @ show_int requiredLamports)))
   \<and> (trim s \<noteq> '''' \<and> PublicKey_toBase58 L treasuryAddress = Some k
      \<and> getParsedTransaction conn (trim s) Confirmed = Inr (Some tx') \<and> \<not> meta_err tx' \<longrightarrow>
      verifySolPayment L conn treasuryAddress s requiredLamports =
        Inr (if requiredLamports \<le> verifySolPayment_loop k (instructions tx') 0
             then CheckOk (trim s) (verifySolPayment_loop k (instructions tx') 0) k
             else CheckFail (''insufficient payment: paid ''
                    @ show_int (verifySolPayment_loop k (instructions tx') 0)
                    @ '' lamports, require '' @ show_int requiredLamports)))"
proof (intro conjI impI)
  assume h: "base64_decode L blob \<noteq> [] \<and> settle_sig L conn (base64_decode L blob) = Some sig
      \<and> sig \<noteq> '''' \<and> getParsedTransaction conn sig Confirmed = Inr (Some tx) \<and> \<not> meta_err tx"
  then have "settleAndVerifyPayment L conn blob requiredLamports payTo =
           confirm_and_parse conn sig requiredLamports payTo"
    by (simp add: settle_with_sig)
  with h show "settleAndVerifyPayment L conn blob requiredLamports payTo =
        Inr (if requiredLamports \<le> settleAndVerifyPayment_loop payTo (instructions tx) 0
             then VerifyOk sig (first_account_key tx)
                    (settleAndVerifyPayment_loop payTo (instructions tx) 0)
             else VerifyFail (''insufficient payment: paid=''
                    @ show_int (settleAndVerifyPayment_loop payTo (instructions tx) 0)
                    @ '' require='' @ show_int requiredLamports))"
    by (simp add: confirm_and_parse_confirmed)
next
  assume h: "trim s \<noteq> '''' \<and> PublicKey_toBase58 L treasuryAddress = Some k
      \<and> getParsedTransaction conn (trim s) Confirmed = Inr (Some tx') \<and> \<not> meta_err tx'"
  then show "verifySolPayment L conn treasuryAddress s requiredLamports =
        Inr (if requiredLamports \<le> verifySolPayment_loop k (instructions tx') 0
             then CheckOk (trim s) (verifySolPayment_loop k (instructions tx') 0) k
             else CheckFail (''insufficient payment: paid ''
                    @ show_int (verifySolPayment_loop k (instructions tx') 0)
                    @ '' lamports, require '' @ show_int requiredLamports))"
    by (simp add: verifySolPayment_confirmed)
qed

text \<open>
  At the boundary: with 1000000 required, the blob whose transaction \<^verbatim>\<open>SigA\<close> paid
  1000000 is verified with payer \<^verbatim>\<open>Payer1\<close>, and the reference \<^verbatim>\<open>SigB\<close>, which paid
  999999, is rejected; the reference \<^verbatim>\<open>SigA\<close> is verified.
\<close>

theorem amount_check_witness:
  "settleAndVerifyPayment demo_lib (demo_conn paid_ledger) ''AQID'' 1000000 ''Treasury1''
     = Inr (VerifyOk ''SigA'' (Some ''Payer1'') 1000000)
   \<and> settleAndVerifyPayment demo_lib (demo_conn paid_ledger) ''AQID'' 1000001 ''Treasury1''
     = Inr (VerifyFail ''insufficient payment: paid=1000000 require=1000001'')
   \<and> verifySolPayment demo_lib (demo_conn paid_ledger) ''Treasury1'' ''SigA'' 1000000
     = Inr (CheckOk ''SigA'' 1000000 ''Treasury1'')"
proof -
  let ?tx = "demo_tx [transfer_ix ''Treasury1'' 1000000]"
  have t: "trim ''SigA'' = ''SigA''" by (simp add: js_defs)
  have h1: "base64_decode demo_lib ''AQID'' \<noteq> []
      \<and> settle_sig demo_lib (demo_conn paid_ledger) (base64_decode demo_lib ''AQID'') = Some ''SigA''
      \<and> ''SigA'' \<noteq> ''''
      \<and> getParsedTransaction (demo_conn paid_ledger) ''SigA'' Confirmed = Inr (Some ?tx)
      \<and> \<not> meta_err ?tx"
    by (simp add: settle_sig_def first_signature_def demo_defs ix_defs)
  have h2: "trim ''SigA'' \<noteq> '''' \<and> PublicKey_toBase58 demo_lib ''Treasury1'' = Some ''Treasury1''
      \<and> getParsedTransaction (demo_conn paid_ledger) (trim ''SigA'') Confirmed = Inr (Some ?tx)
      \<and> \<not> meta_err ?tx"
    by (simp add: t demo_defs ix_defs)
  have p: "settleAndVerifyPayment_loop ''Treasury1'' (instructions ?tx) 0 = 1000000"
    "verifySolPayment_loop ''Treasury1'' (instructions ?tx) 0 = 1000000"
    by (simp_all add: demo_defs ix_defs)
  have s: "show_int 1000001 = ''1000001''" by (simp add: js_defs)
  from amount_check [of demo_lib "''AQID''" "demo_conn paid_ledger" "''SigA''" ?tx 1000000
      "''Treasury1''" "''SigA''" "''Treasury1''" "''Treasury1''" ?tx]
    amount_check [of demo_lib "''AQID''" "demo_conn paid_ledger" "''SigA''" ?tx 1000001
      "''Treasury1''" "''SigA''" "''Treasury1''" "''Treasury1''" ?tx]
    h1 h2 p t s show_int_1000000
  show ?thesis by (simp add: first_account_key_def demo_tx_def)
qed

section \<open>Transactions that are missing or failed\<close>

lemma verifySolPayment_not_found:
  assumes "trim s \<noteq> ''''" and "PublicKey_toBase58 L treasuryAddress = Some k"
    and "getParsedTransaction conn (trim s) Confirmed = Inr None"
  shows "verifySolPayment L conn treasuryAddress s requiredLamports =
           Inr (CheckFail ''transaction not found (yet)'')"
  using assms by (simp add: verifySolPayment_def Let_def)

lemma verifySolPayment_failed:
  assumes "trim s \<noteq> ''''" and "PublicKey_toBase58 L treasuryAddress = Some k"
    and "getParsedTransaction conn (trim s) Confirmed = Inr (Some tx)" and "meta_err tx"
  shows "verifySolPayment L conn treasuryAddress s requiredLamports =
           Inr (CheckFail ''transaction failed'')"
  using assms by (simp add: verifySolPayment_def Let_def)

lemma verifySolPayment_never_ok:
  assumes "getParsedTransaction conn (trim s) Confirmed = Inr None
           \<or> (getParsedTransaction conn (trim s) Confirmed = Inr (Some tx) \<and> meta_err tx)"
  shows "\<exists>reason. verifySolPayment L conn treasuryAddress s requiredLamports = Inr (CheckFail reason)"
  using assms by (auto simp: verifySolPayment_def Let_def split: option.splits)

text \<open>
  Claim C7. For a reference-form proof, verification reads the transaction at the
  confirmed commitment. When the node does not know it, the result is the failure
  \<^verbatim>\<open>transaction not found (yet)\<close>; when the node knows it and reports an execution error,
  the result is the failure \<^verbatim>\<open>transaction failed\<close>. In both cases, whatever the signature
  and the treasury address, the result is a failure and never the verified result. The
  blob form fails in the same two cases, once it holds a signature.
\<close>

theorem missing_or_failed_transaction_is_rejected:
  "(trim s \<noteq> '''' \<and> PublicKey_toBase58 L treasuryAddress = Some k
      \<and> getParsedTransaction conn (trim s) Confirmed = Inr None \<longrightarrow>
      verifySolPayment L conn treasuryAddress s requiredLamports =
        Inr (CheckFail ''transaction not found (yet)''))
   \<and> (trim s \<noteq> '''' \<and> PublicKey_toBase58 L treasuryAddress = Some k
      \<and> getParsedTransaction conn (trim s) Confirmed = Inr (Some tx) \<and> meta_err tx \<longrightarrow>
      verifySolPayment L conn treasuryAddress s requiredLamports =
        Inr (CheckFail ''transaction failed''))
   \<and> (getParsedTransaction conn (trim s) Confirmed = Inr None
      \<or> (getParsedTransaction conn (trim s) Confirmed = Inr (Some tx) \<and> meta_err tx) \<longrightarrow>
      (\<exists>reason. verifySolPayment L conn treasuryAddress s requiredLamports = Inr (CheckFail reason)))
   \<and> (getParsedTransaction conn sig Confirmed = Inr None \<longrightarrow>
      confirm_and_parse conn sig requiredLamports' payTo =
        Inr (VerifyFail ''transaction not found/confirmed yet''))
   \<and> (getParsedTransaction conn sig Confirmed = Inr (Some tx) \<and> meta_err tx \<longrightarrow>
      confirm_and_parse conn sig requiredLamports' payTo = Inr (VerifyFail ''transaction failed''))"
proof -
  have a: "trim s \<noteq> '''' \<and> PublicKey_toBase58 L treasuryAddress = Some k
      \<and> getParsedTransaction conn (trim s) Confirmed = Inr None \<longrightarrow>
      verifySolPayment L conn treasuryAddress s requiredLamports =
        Inr (CheckFail ''transaction not found (yet)'')"
    by (simp add: verifySolPayment_not_found)
  have b: "trim s \<noteq> '''' \<and> PublicKey_toBase58 L treasuryAddress = Some k
      \<and> getParsedTransaction conn (trim s) Confirmed = Inr (Some tx) \<and> meta_err tx \<longrightarrow>
      verifySolPayment L conn treasuryAddress s requiredLamports =
        Inr (CheckFail ''transaction failed'')"
    by (simp add: verifySolPayment_failed)
  have c: "getParsedTransaction conn (trim s) Confirmed = Inr None
      \<or> (getParsedTransaction conn (trim s) Confirmed = Inr (Some tx) \<and> meta_err tx) \<longrightarrow>
      (\<exists>reason. verifySolPayment L conn treasuryAddress s requiredLamports = Inr (CheckFail reason))"
    using verifySolPayment_never_ok by blast
  have d: "getParsedTransaction conn sig Confirmed = Inr None \<longrightarrow>
      confirm_and_parse conn sig requiredLamports' payTo =
        Inr (VerifyFail ''transaction not found/confirmed yet'')"
    by (simp add: confirm_and_parse_def)
  have e: "getParsedTransaction conn sig Confirmed = Inr (Some tx) \<and> meta_err tx \<longrightarrow>
      confirm_and_parse conn sig requiredLamports' payTo = Inr (VerifyFail ''transaction failed'')"
    by (simp add: confirm_and_parse_def)
  from a b c d e show ?thesis by blast
qed

text \<open>
  The reference \<^verbatim>\<open>SigX\<close> is unknown to the node and \<^verbatim>\<open>SigF\<close> is a transaction that
  failed, although it carries a transfer of the full amount.
\<close>

theorem missing_or_failed_transaction_is_rejected_witness:
  "verifySolPayment demo_lib (demo_conn paid_ledger) ''Treasury1'' ''SigX'' 1000000
     = Inr (CheckFail ''transaction not found (yet)'')
   \<and> verifySolPayment demo_lib (demo_conn paid_ledger) ''Treasury1'' ''SigF'' 1000000
     = Inr (CheckFail ''transaction failed'')
   \<and> confirm_and_parse (demo_conn paid_ledger) ''SigX'' 1000000 ''Treasury1''
     = Inr (VerifyFail ''transaction not found/confirmed yet'')
   \<and> confirm_and_parse (demo_conn paid_ledger) ''SigF'' 1000000 ''Treasury1''
     = Inr (VerifyFail ''transaction failed'')"
proof -
  have tx: "trim ''SigX'' = ''SigX''" and tf: "trim ''SigF'' = ''SigF''"
    by (simp_all add: js_defs)
  have k: "PublicKey_toBase58 demo_lib ''Treasury1'' = Some ''Treasury1''"
    by (simp add: demo_defs)
  have nx: "getParsedTransaction (demo_conn paid_ledger) ''SigX'' Confirmed = Inr None"
    by (simp add: demo_defs)
  have nf: "getParsedTransaction (demo_conn paid_ledger) ''SigF'' Confirmed = Inr (Some failed_tx)"
    by (simp add: demo_conn_def paid_ledger_def)
  have ef: "meta_err failed_tx"
    by (simp add: meta_err_def failed_tx_def)
  from missing_or_failed_transaction_is_rejected [of "''SigX''" demo_lib "''Treasury1''"
      "''Treasury1''" "demo_conn paid_ledger" 1000000 failed_tx "''SigX''" 1000000 "''Treasury1''"]
    missing_or_failed_transaction_is_rejected [of "''SigF''" demo_lib "''Treasury1''"
      "''Treasury1''" "demo_conn paid_ledger" 1000000 failed_tx "''SigF''" 1000000 "''Treasury1''"]
    tx tf k nx nf ef
  show ?thesis by simp
qed

section \<open>Verifying twice\<close>

lemma verifySolPayment_cong:
  assumes "getParsedTransaction conn (trim s) Confirmed = getParsedTransaction conn' (trim s) Confirmed"
  shows "verifySolPayment L conn treasuryAddress s requiredLamports =
         verifySolPayment L conn' treasuryAddress s requiredLamports"
  unfolding verifySolPayment_def Let_def assms by (rule refl)

text \<open>
  Claim C8. Verification is idempotent and deterministic. \<^verbatim>\<open>verifySolPayment\<close> only reads
  the ledger, and it reads it only at the given reference and the confirmed commitment: two
  invocations with the same reference, required amount and treasury address, against nodes
  that give the same answer for that reference, return the same result, whatever else the
  nodes differ in. For a transaction that is already confirmed, without error and with a
  sufficient sum, both invocations return the same verified result.
\<close>

theorem verification_is_idempotent:
  "(getParsedTransaction conn (trim s) Confirmed = getParsedTransaction conn' (trim s) Confirmed \<longrightarrow>
      verifySolPayment L conn treasuryAddress s requiredLamports =
      verifySolPayment L conn' treasuryAddress s requiredLamports)
   \<and> (trim s \<noteq> '''' \<and> PublicKey_toBase58 L treasuryAddress = Some k
      \<and> getParsedTransaction conn (trim s) Confirmed = Inr (Some tx)
      \<and> getParsedTransaction conn' (trim s) Confirmed = Inr (Some tx)
      \<and> \<not> meta_err tx \<and> requiredLamports \<le> verifySolPayment_loop k (instructions tx) 0 \<longrightarrow>
      verifySolPayment L conn treasuryAddress s requiredLamports =
        Inr (CheckOk (trim s) (verifySolPayment_loop k (instructions tx) 0) k)
      \<and> verifySolPayment L conn' treasuryAddress s requiredLamports =
        Inr (CheckOk (trim s) (verifySolPayment_loop k (instructions tx) 0) k))"
proof -
  have a: "getParsedTransaction conn (trim s) Confirmed = getParsedTransaction conn' (trim s) Confirmed \<longrightarrow>
      verifySolPayment L conn treasuryAddress s requiredLamports =
      verifySolPayment L conn' treasuryAddress s requiredLamports"
    using verifySolPayment_cong by blast
  have b: "trim s \<noteq> '''' \<and> PublicKey_toBase58 L treasuryAddress = Some k
      \<and> getParsedTransaction conn (trim s) Confirmed = Inr (Some tx)
      \<and> getParsedTransaction conn' (trim s) Confirmed = Inr (Some tx)
      \<and> \<not> meta_err tx \<and> requiredLamports \<le> verifySolPayment_loop k (instructions tx) 0 \<longrightarrow>
      verifySolPayment L conn treasuryAddress s requiredLamports =
        Inr (CheckOk (trim s) (verifySolPayment_loop k (instructions tx) 0) k)
      \<and> verifySolPayment L conn' treasuryAddress s requiredLamports =
        Inr (CheckOk (trim s) (verifySolPayment_loop k (instructions tx) 0) k)"
    by (simp add: verifySolPayment_confirmed)
  from a b show ?thesis by blast
qed

text \<open>
  Two nodes that differ in what they do with a submission and in another entry of the
  ledger, and agree on the confirmed transaction \<^verbatim>\<open>SigA\<close>.
\<close>

theorem verification_is_idempotent_witness:
  "verifySolPayment demo_lib (demo_conn paid_ledger) ''Treasury1'' ''SigA'' 1000000
     = verifySolPayment demo_lib (open_conn (paid_ledger(''SigB'' := None))) ''Treasury1'' ''SigA'' 1000000
   \<and> verifySolPayment demo_lib (demo_conn paid_ledger) ''Treasury1'' ''SigA'' 1000000
     = Inr (CheckOk ''SigA'' 1000000 ''Treasury1'')
   \<and> verifySolPayment demo_lib (open_conn (paid_ledger(''SigB'' := None))) ''Treasury1'' ''SigA'' 1000000
     = Inr (CheckOk ''SigA'' 1000000 ''Treasury1'')"
proof -
  let ?tx = "demo_tx [transfer_ix ''Treasury1'' 1000000]"
  let ?c = "demo_conn paid_ledger" and ?c' = "open_conn (paid_ledger(''SigB'' := None))"
  have t: "trim ''SigA'' = ''SigA''" by (simp add: js_defs)
  have k: "PublicKey_toBase58 demo_lib ''Treasury1'' = Some ''Treasury1''"
    by (simp add: demo_defs)
  have g: "getParsedTransaction ?c ''SigA'' Confirmed = Inr (Some ?tx)"
    "getParsedTransaction ?c' ''SigA'' Confirmed = Inr (Some ?tx)"
    by (simp_all add: demo_conn_def open_conn_def paid_ledger_def)
  have e: "\<not> meta_err ?tx" by (simp add: meta_err_def demo_tx_def)
  have p: "verifySolPayment_loop ''Treasury1'' (instructions ?tx) 0 = 1000000"
    by (simp add: demo_defs ix_defs)
  from verification_is_idempotent [of ?c "''SigA''" ?c' demo_lib "''Treasury1''" 1000000
      "''Treasury1''" ?tx] t k g e p
  show ?thesis by simp
qed

section \<open>Recovering the signature of a blob\<close>





section \<open>The conversion from USD to lamports\<close>



section \<open>The two names of the structured header\<close>

lemma extract_from_raw:
  assumes "or_else (headers_get req ''X-PAYMENT'')
             (or_else (headers_get req ''PAYMENT-SIGNATURE'') '''') = raw" and "raw \<noteq> ''''"
  shows "extractPaymentFromHeaders E req =
     (case decodeBase64Json E raw of
        Inl m \<Rightarrow> ParsedFail (if m = '''' then ''bad X-PAYMENT encoding'' else m)
      | Inr j \<Rightarrow>
          (case SolPaymentPayloadSchema_safeParse E j of
             None \<Rightarrow> ParsedFail ''invalid payment payload''
           | Some t \<Rightarrow> ParsedOk t))"
  using assms by (simp add: extractPaymentFromHeaders_def Let_def)

text \<open>
  Claim C10. The extractor takes the base64 JSON payload under either of two header names.
  When \<^verbatim>\<open>X-PAYMENT\<close> is absent (or empty) and \<^verbatim>\<open>PAYMENT-SIGNATURE\<close> holds a payload that
  decodes and that the schema accepts, extraction succeeds with the embedded transaction
  blob. When \<^verbatim>\<open>X-PAYMENT\<close> holds a value, that value alone decides the result, whatever
  \<^verbatim>\<open>PAYMENT-SIGNATURE\<close> holds. When neither header is present (or both are empty), the
  result is the failure with reason \<^verbatim>\<open>missing X-PAYMENT header\<close>.
\<close>

theorem structured_header_names:
  "((headers_get req ''X-PAYMENT'' = None \<or> headers_get req ''X-PAYMENT'' = Some '''')
      \<and> headers_get req ''PAYMENT-SIGNATURE'' = Some v \<and> v \<noteq> ''''
      \<and> decodeBase64Json E v = Inr j \<and> SolPaymentPayloadSchema_safeParse E j = Some t \<longrightarrow>
      extractPaymentFromHeaders E req = ParsedOk t)
   \<and> (headers_get req ''X-PAYMENT'' = Some x \<and> x \<noteq> '''' \<longrightarrow>
      extractPaymentFromHeaders E req =
        (case decodeBase64Json E x of
           Inl m \<Rightarrow> ParsedFail (if m = '''' then ''bad X-PAYMENT encoding'' else m)
         | Inr j' \<Rightarrow>
             (case SolPaymentPayloadSchema_safeParse E j' of
                None \<Rightarrow> ParsedFail ''invalid payment payload''
              | Some t' \<Rightarrow> ParsedOk t')))
   \<and> ((headers_get req ''X-PAYMENT'' = None \<or> headers_get req ''X-PAYMENT'' = Some '''')
      \<and> (headers_get req ''PAYMENT-SIGNATURE'' = None
          \<or> headers_get req ''PAYMENT-SIGNATURE'' = Some '''') \<longrightarrow>
      extractPaymentFromHeaders E req = ParsedFail ''missing X-PAYMENT header'')
   \<and> headers_get req ''X-PAYMENT'' = header req ''x-payment''
   \<and> headers_get req ''PAYMENT-SIGNATURE'' = header req ''payment-signature''"
proof -
  have a: "(headers_get req ''X-PAYMENT'' = None \<or> headers_get req ''X-PAYMENT'' = Some '''')
      \<and> headers_get req ''PAYMENT-SIGNATURE'' = Some v \<and> v \<noteq> ''''
      \<and> decodeBase64Json E v = Inr j \<and> SolPaymentPayloadSchema_safeParse E j = Some t \<longrightarrow>
      extractPaymentFromHeaders E req = ParsedOk t"
  proof (intro impI)
    assume h: "(headers_get req ''X-PAYMENT'' = None \<or> headers_get req ''X-PAYMENT'' = Some '''')
      \<and> headers_get req ''PAYMENT-SIGNATURE'' = Some v \<and> v \<noteq> ''''
      \<and> decodeBase64Json E v = Inr j \<and> SolPaymentPayloadSchema_safeParse E j = Some t"
    then have "or_else (headers_get req ''X-PAYMENT'')
             (or_else (headers_get req ''PAYMENT-SIGNATURE'') '''') = v"
      by (auto simp: or_else_def)
    with h show "extractPaymentFromHeaders E req = ParsedOk t"
      by (simp add: extract_from_raw)
  qed
  have b: "headers_get req ''X-PAYMENT'' = Some x \<and> x \<noteq> '''' \<longrightarrow>
      extractPaymentFromHeaders E req =
        (case decodeBase64Json E x of
           Inl m \<Rightarrow> ParsedFail (if m = '''' then ''bad X-PAYMENT encoding'' else m)
         | Inr j' \<Rightarrow>
             (case SolPaymentPayloadSchema_safeParse E j' of
                None \<Rightarrow> ParsedFail ''invalid payment payload''
              | Some t' \<Rightarrow> ParsedOk t'))"
  proof (intro impI)
    assume h: "headers_get req ''X-PAYMENT'' = Some x \<and> x \<noteq> ''''"
    then have "or_else (headers_get req ''X-PAYMENT'')
             (or_else (headers_get req ''PAYMENT-SIGNATURE'') '''') = x"
      by (simp add: or_else_def)
    with h show "extractPaymentFromHeaders E req =
        (case decodeBase64Json E x of
           Inl m \<Rightarrow> ParsedFail (if m = '''' then ''bad X-PAYMENT encoding'' else m)
         | Inr j' \<Rightarrow>
             (case SolPaymentPayloadSchema_safeParse E j' of
                None \<Rightarrow> ParsedFail ''invalid payment payload''
              | Some t' \<Rightarrow> ParsedOk t'))"
      by (simp add: extract_from_raw)
  qed
  have c: "(headers_get req ''X-PAYMENT'' = None \<or> headers_get req ''X-PAYMENT'' = Some '''')
      \<and> (headers_get req ''PAYMENT-SIGNATURE'' = None
          \<or> headers_get req ''PAYMENT-SIGNATURE'' = Some '''') \<longrightarrow>
      extractPaymentFromHeaders E req = ParsedFail ''missing X-PAYMENT header''"
    by (auto simp: extractPaymentFromHeaders_def or_else_def Let_def)
  have d: "headers_get req ''X-PAYMENT'' = header req ''x-payment''"
    "headers_get req ''PAYMENT-SIGNATURE'' = header req ''payment-signature''"
    by (simp_all add: headers_get_def to_lower_def)
  from a b c d show ?thesis by blast
qed

text \<open>
  With only \<^verbatim>\<open>PAYMENT-SIGNATURE\<close> the blob is extracted; with both, a malformed
  \<^verbatim>\<open>X-PAYMENT\<close> decides and the valid \<^verbatim>\<open>PAYMENT-SIGNATURE\<close> is not read; with neither,
  the header is reported missing.
\<close>

theorem structured_header_names_witness:
  "extractPaymentFromHeaders (demo_env False (Inr []))
     (demo_request [''payment-signature'' \<mapsto> ''AQID'']) = ParsedOk ''AQID''
   \<and> extractPaymentFromHeaders (demo_env False (Inr []))
     (demo_request [''payment-signature'' \<mapsto> ''AQID'', ''x-payment'' \<mapsto> ''zzz''])
       = ParsedFail ''Unexpected token''
   \<and> extractPaymentFromHeaders (demo_env False (Inr [])) (demo_request Map.empty)
       = ParsedFail ''missing X-PAYMENT header''"
proof -
  let ?E = "demo_env False (Inr [])"
  let ?r1 = "demo_request [''payment-signature'' \<mapsto> ''AQID'']"
  let ?r2 = "demo_request [''payment-signature'' \<mapsto> ''AQID'', ''x-payment'' \<mapsto> ''zzz'']"
  let ?r3 = "demo_request Map.empty"
  have g1: "headers_get ?r1 ''X-PAYMENT'' = None"
    "headers_get ?r1 ''PAYMENT-SIGNATURE'' = Some ''AQID''"
    by (simp_all add: headers_get_def to_lower_def demo_request_def)
  have g2: "headers_get ?r2 ''X-PAYMENT'' = Some ''zzz''"
    by (simp add: headers_get_def to_lower_def demo_request_def)
  have g3: "headers_get ?r3 ''X-PAYMENT'' = None" "headers_get ?r3 ''PAYMENT-SIGNATURE'' = None"
    by (simp_all add: headers_get_def demo_request_def)
  have d1: "decodeBase64Json ?E ''AQID'' = Inr (JStr ''AQID'')"
    "SolPaymentPayloadSchema_safeParse ?E (JStr ''AQID'') = Some ''AQID''"
    by (simp_all add: decodeBase64Json_def demo_env_def demo_lib_def)
  have d2: "decodeBase64Json ?E ''zzz'' = Inl ''Unexpected token''"
    by (simp add: decodeBase64Json_def demo_env_def demo_lib_def)
  from structured_header_names [of ?r1 "''AQID''" ?E "JStr ''AQID''" "''AQID''" "''zzz''"]
    structured_header_names [of ?r2 "''AQID''" ?E "JStr ''AQID''" "''AQID''" "''zzz''"]
    structured_header_names [of ?r3 "''AQID''" ?E "JStr ''AQID''" "''AQID''" "''zzz''"]
    g1 g2 g3 d1 d2
  show ?thesis by simp
qed

section \<open>The handlers at the payment gate\<close>

lemma daily_reference_failed:
  assumes "gate_reached E cfg solUsd" and "paymentTx_header req \<noteq> ''''"
    and "verifySolPayment (libs E) (Connection E (SOLANA_RPC_URL cfg)) (getX402TreasuryAddress E cfg)
           (paymentTx_header req) (usdToLamports (X402_PRICE_USD cfg) solUsd) = Inr (CheckFail reason)"
  shows "signals_daily E req =
           ([FetchSolUsdPrice, VerifySolPayment (paymentTx_header req)],
            payment_required E (fresh_quote E cfg solUsd req ''Unlock daily signal'') (Some reason))"
  using assms by (simp add: signals_daily_def gate_reached_def fresh_quote_def Let_def)

lemma top_reference_failed:
  assumes "gate_reached E cfg solUsd" and "paymentTx_header req \<noteq> ''''"
    and "verifySolPayment (libs E) (Connection E (SOLANA_RPC_URL cfg)) (getX402TreasuryAddress E cfg)
           (paymentTx_header req) (usdToLamports (X402_PRICE_USD cfg) solUsd) = Inr (CheckFail reason)"
  shows "signals_polymarket_top E req =
           ([FetchSolUsdPrice, VerifySolPayment (paymentTx_header req)],
            payment_required E (fresh_quote E cfg solUsd req ''Unlock Polymarket top signals'')
              (Some reason))"
  using assms by (simp add: signals_polymarket_top_def gate_reached_def fresh_quote_def Let_def)

lemma daily_blob_failed:
  assumes "gate_reached E cfg solUsd" and "paymentTx_header req = ''''"
    and "extractPaymentFromHeaders E req = ParsedOk b"
    and "settleAndVerifyPayment (libs E) (Connection E (SOLANA_RPC_URL cfg)) b
           (usdToLamports (X402_PRICE_USD cfg) solUsd) (getX402TreasuryAddress E cfg)
           = Inr (VerifyFail reason)"
  shows "signals_daily E req =
           ([FetchSolUsdPrice, SettleAndVerifyPayment b],
            payment_required E (fresh_quote E cfg solUsd req ''Unlock daily signal'') (Some reason))"
  using assms by (simp add: signals_daily_def gate_reached_def fresh_quote_def Let_def)

lemma top_blob_failed:
  assumes "gate_reached E cfg solUsd" and "paymentTx_header req = ''''"
    and "extractPaymentFromHeaders E req = ParsedOk b"
    and "settleAndVerifyPayment (libs E) (Connection E (SOLANA_RPC_URL cfg)) b
           (usdToLamports (X402_PRICE_USD cfg) solUsd) (getX402TreasuryAddress E cfg)
           = Inr (VerifyFail reason)"
  shows "signals_polymarket_top E req =
           ([FetchSolUsdPrice, SettleAndVerifyPayment b],
            payment_required E (fresh_quote E cfg solUsd req ''Unlock Polymarket top signals'')
              (Some reason))"
  using assms by (simp add: signals_polymarket_top_def gate_reached_def fresh_quote_def Let_def)

lemma daily_extraction_failed:
  assumes "gate_reached E cfg solUsd" and "paymentTx_header req = ''''"
    and "extractPaymentFromHeaders E req = ParsedFail r"
  shows "signals_daily E req =
           ([FetchSolUsdPrice],
            payment_required E (fresh_quote E cfg solUsd req ''Unlock daily signal'') None)"
  using assms by (simp add: signals_daily_def gate_reached_def fresh_quote_def Let_def)

lemma top_extraction_failed:
  assumes "gate_reached E cfg solUsd" and "paymentTx_header req = ''''"
    and "extractPaymentFromHeaders E req = ParsedFail r"
  shows "signals_polymarket_top E req =
           ([FetchSolUsdPrice],
            payment_required E (fresh_quote E cfg solUsd req ''Unlock Polymarket top signals'') None)"
  using assms by (simp add: signals_polymarket_top_def gate_reached_def fresh_quote_def Let_def)

lemma payment_required_shape:
  "status (payment_required E q error) = 402"
  "json_field (body (payment_required E q (Some reason))) ''error'' = Some (JStr reason)"
  "json_field (body (payment_required E q None)) ''error'' = Some (JStr ''Payment required'')"
  "json_field (body (payment_required E q error)) ''accepts'' = Some (JArr [q])"
  by (simp_all add: payment_required_def create402Body_def c_json_def json_field_def Let_def)

lemma demo_gate_reached: "gate_reached (demo_env False answer) (demo_cfg False) 250"
  by (simp add: gate_reached_def demo_env_def demo_cfg_def getX402TreasuryAddress_def)

lemma demo_required: "usdToLamports (X402_PRICE_USD (demo_cfg False)) 250 = 1000000"
  by (simp add: usdToLamports_def demo_cfg_def)

lemma demo_parts:
  "libs (demo_env False answer) = demo_lib"
  "Connection (demo_env False answer) u = demo_conn paid_ledger"
  "getX402TreasuryAddress (demo_env False answer) (demo_cfg False) = ''Treasury1''"
  by (simp_all add: demo_env_def demo_cfg_def getX402TreasuryAddress_def)

text \<open>
  Claim C1, as the specification states it, fails for a malformed proof: a request whose
  \<^verbatim>\<open>X-PAYMENT\<close> header does not decode gets a 402 with a quote, but the error of the body
  is the general \<^verbatim>\<open>Payment required\<close> and not the reason of the failed extraction.
\<close>

theorem malformed_proof_reason_counterexample:
  "extractPaymentFromHeaders (demo_env False (Inr [])) (demo_request [''x-payment'' \<mapsto> ''zzz''])
     = ParsedFail ''Unexpected token''
   \<and> status (snd (signals_daily (demo_env False (Inr []))
        (demo_request [''x-payment'' \<mapsto> ''zzz'']))) = 402
   \<and> json_field (body (snd (signals_daily (demo_env False (Inr []))
        (demo_request [''x-payment'' \<mapsto> ''zzz''])))) ''error'' = Some (JStr ''Payment required'')
   \<and> JStr ''Payment required'' \<noteq> JStr ''Unexpected token''"
proof -
  let ?E = "demo_env False (Inr [])" and ?r = "demo_request [''x-payment'' \<mapsto> ''zzz'']"
  have x: "extractPaymentFromHeaders ?E ?r = ParsedFail ''Unexpected token''"
    by (simp add: extractPaymentFromHeaders_def decodeBase64Json_def js_defs demo_defs)
  have p: "paymentTx_header ?r = ''''"
    by (simp add: paymentTx_header_def js_defs demo_defs)
  have "signals_daily ?E ?r =
          ([FetchSolUsdPrice],
           payment_required ?E (fresh_quote ?E (demo_cfg False) 250 ?r ''Unlock daily signal'') None)"
    using demo_gate_reached p x by (rule daily_extraction_failed)
  with x show ?thesis by (simp add: payment_required_shape)
qed

text \<open>
  Claim C1, amended. For a request that carries a payment proof, when verification
  (\<^verbatim>\<open>verifySolPayment\<close> for a reference, \<^verbatim>\<open>settleAndVerifyPayment\<close> for an extracted blob)
  returns a failure, each of the two handlers answers 402 with the body and header of
  \<open>payment_required\<close>: the quote built from the price fetched for this request, and the
  reason of the failure as the error. It never answers 200. When the structured header is
  malformed, so that extraction fails, the answer is the same 402 with the fresh quote, with
  the general error \<^verbatim>\<open>Payment required\<close> in place of a reason.
\<close>

theorem failed_verification_requotes:
  "(gate_reached E cfg solUsd \<and> paymentTx_header req \<noteq> ''''
      \<and> verifySolPayment (libs E) (Connection E (SOLANA_RPC_URL cfg)) (getX402TreasuryAddress E cfg)
           (paymentTx_header req) (usdToLamports (X402_PRICE_USD cfg) solUsd) = Inr (CheckFail reason)
      \<longrightarrow>
      signals_daily E req =
        ([FetchSolUsdPrice, VerifySolPayment (paymentTx_header req)],
         payment_required E (fresh_quote E cfg solUsd req ''Unlock daily signal'') (Some reason))
      \<and> signals_polymarket_top E req =
        ([FetchSolUsdPrice, VerifySolPayment (paymentTx_header req)],
         payment_required E (fresh_quote E cfg solUsd req ''Unlock Polymarket top signals'')
           (Some reason)))
   \<and> (gate_reached E cfg solUsd \<and> paymentTx_header req = ''''
      \<and> extractPaymentFromHeaders E req = ParsedOk b
      \<and> settleAndVerifyPayment (libs E) (Connection E (SOLANA_RPC_URL cfg)) b
           (usdToLamports (X402_PRICE_USD cfg) solUsd) (getX402TreasuryAddress E cfg)
           = Inr (VerifyFail reason)
      \<longrightarrow>
      signals_daily E req =
        ([FetchSolUsdPrice, SettleAndVerifyPayment b],
         payment_required E (fresh_quote E cfg solUsd req ''Unlock daily signal'') (Some reason))
      \<and> signals_polymarket_top E req =
        ([FetchSolUsdPrice, SettleAndVerifyPayment b],
         payment_required E (fresh_quote E cfg solUsd req ''Unlock Polymarket top signals'')
           (Some reason)))
   \<and> (gate_reached E cfg solUsd \<and> paymentTx_header req = ''''
      \<and> extractPaymentFromHeaders E req = ParsedFail r
      \<longrightarrow>
      signals_daily E req =
        ([FetchSolUsdPrice],
         payment_required E (fresh_quote E cfg solUsd req ''Unlock daily signal'') None)
      \<and> signals_polymarket_top E req =
        ([FetchSolUsdPrice],
         payment_required E (fresh_quote E cfg solUsd req ''Unlock Polymarket top signals'') None))
   \<and> status (payment_required E q error) = 402
   \<and> json_field (body (payment_required E q (Some reason))) ''error'' = Some (JStr reason)
   \<and> json_field (body (payment_required E q None)) ''error'' = Some (JStr ''Payment required'')
   \<and> json_field (body (payment_required E q error)) ''accepts'' = Some (JArr [q])"
proof -
  have a: "gate_reached E cfg solUsd \<and> paymentTx_header req \<noteq> ''''
      \<and> verifySolPayment (libs E) (Connection E (SOLANA_RPC_URL cfg)) (getX402TreasuryAddress E cfg)
           (paymentTx_header req) (usdToLamports (X402_PRICE_USD cfg) solUsd) = Inr (CheckFail reason)
      \<longrightarrow>
      signals_daily E req =
        ([FetchSolUsdPrice, VerifySolPayment (paymentTx_header req)],
         payment_required E (fresh_quote E cfg solUsd req ''Unlock daily signal'') (Some reason))
      \<and> signals_polymarket_top E req =
        ([FetchSolUsdPrice, VerifySolPayment (paymentTx_header req)],
         payment_required E (fresh_quote E cfg solUsd req ''Unlock Polymarket top signals'')
           (Some reason))"
    using daily_reference_failed top_reference_failed by blast
  have b: "gate_reached E cfg solUsd \<and> paymentTx_header req = ''''
      \<and> extractPaymentFromHeaders E req = ParsedOk b
      \<and> settleAndVerifyPayment (libs E) (Connection E (SOLANA_RPC_URL cfg)) b
           (usdToLamports (X402_PRICE_USD cfg) solUsd) (getX402TreasuryAddress E cfg)
           = Inr (VerifyFail reason)
      \<longrightarrow>
      signals_daily E req =
        ([FetchSolUsdPrice, SettleAndVerifyPayment b],
         payment_required E (fresh_quote E cfg solUsd req ''Unlock daily signal'') (Some reason))
      \<and> signals_polymarket_top E req =
        ([FetchSolUsdPrice, SettleAndVerifyPayment b],
         payment_required E (fresh_quote E cfg solUsd req ''Unlock Polymarket top signals'')
           (Some reason))"
    using daily_blob_failed top_blob_failed by blast
  have c: "gate_reached E cfg solUsd \<and> paymentTx_header req = ''''
      \<and> extractPaymentFromHeaders E req = ParsedFail r
      \<longrightarrow>
      signals_daily E req =
        ([FetchSolUsdPrice],
         payment_required E (fresh_quote E cfg solUsd req ''Unlock daily signal'') None)
      \<and> signals_polymarket_top E req =
        ([FetchSolUsdPrice],
         payment_required E (fresh_quote E cfg solUsd req ''Unlock Polymarket top signals'') None)"
    using daily_extraction_failed top_extraction_failed by blast
  from a b c payment_required_shape(1) [of E q error] payment_required_shape(2) [of E q reason]
    payment_required_shape(3) [of E q] payment_required_shape(4) [of E q error]
  show ?thesis by blast
qed

text \<open>
  The reference \<^verbatim>\<open>SigB\<close> paid 999999 of the 1000000 required: both handlers answer 402
  with the reason as the error of the body.
\<close>

theorem failed_verification_requotes_witness:
  "status (snd (signals_daily (demo_env False (Inr []))
      (demo_request [''x-payment-tx'' \<mapsto> ''SigB'']))) = 402
   \<and> json_field (body (snd (signals_daily (demo_env False (Inr []))
      (demo_request [''x-payment-tx'' \<mapsto> ''SigB''])))) ''error''
     = Some (JStr ''insufficient payment: paid 999999 lamports, require 1000000'')
   \<and> status (snd (signals_polymarket_top (demo_env False (Inr []))
      (demo_request [''x-payment-tx'' \<mapsto> ''SigB'']))) = 402
   \<and> fst (signals_daily (demo_env False (Inr [])) (demo_request [''x-payment-tx'' \<mapsto> ''SigB'']))
     = [FetchSolUsdPrice, VerifySolPayment ''SigB'']"
proof -
  let ?E = "demo_env False (Inr [])" and ?r = "demo_request [''x-payment-tx'' \<mapsto> ''SigB'']"
  let ?reason = "''insufficient payment: paid 999999 lamports, require 1000000''"
  have p: "paymentTx_header ?r = ''SigB''"
    by (simp add: paymentTx_header_def js_defs demo_request_def)
  have t: "trim ''SigB'' = ''SigB''" by (simp add: js_defs)
  have v: "verifySolPayment demo_lib (demo_conn paid_ledger) ''Treasury1'' ''SigB'' 1000000
     = Inr (CheckFail ?reason)"
    by (simp add: verifySolPayment_def t demo_defs ix_defs show_int_999999 show_int_1000000)
  have h: "gate_reached ?E (demo_cfg False) 250 \<and> paymentTx_header ?r \<noteq> ''''
      \<and> verifySolPayment (libs ?E) (Connection ?E (SOLANA_RPC_URL (demo_cfg False)))
           (getX402TreasuryAddress ?E (demo_cfg False))
           (paymentTx_header ?r) (usdToLamports (X402_PRICE_USD (demo_cfg False)) 250)
         = Inr (CheckFail ?reason)"
    by (simp add: demo_gate_reached p v demo_parts demo_required)
  from failed_verification_requotes [of ?E "demo_cfg False" 250 ?r ?reason] h p
  show ?thesis by simp
qed

section \<open>Which header is read first\<close>











section \<open>The bypass\<close>

text \<open>
  Claim C9, as the specification states it, fails on the Polymarket endpoint: in bypass
  mode the handler still fetches the markets, and when that fetch throws the request is
  answered 500, not 200.
\<close>

theorem bypass_market_fetch_counterexample:
  "readX402ConfigFromEnv (demo_env True (Inl ''Gamma HTTP 503'')) = Inr (demo_cfg True)
   \<and> X402_DEV_BYPASS (demo_cfg True)
   \<and> signals_polymarket_top (demo_env True (Inl ''Gamma HTTP 503'')) (demo_request Map.empty)
      = ([TopSignals], internal_server_error)
   \<and> status internal_server_error = 500"
  by (simp add: signals_polymarket_top_def top_signals_response_def internal_server_error_def
      demo_env_def demo_cfg_def)

text \<open>
  Claim C9, amended. When the bypass flag of the configuration is on, every request to
  \<^verbatim>\<open>/signals/daily\<close> is answered 200 with \<^verbatim>\<open>paid: false\<close> and \<^verbatim>\<open>bypass: true\<close>, and
  every request to \<^verbatim>\<open>/signals/polymarket/top\<close> is answered 200 with \<^verbatim>\<open>paid: false\<close>
  provided the market fetch behind the payload succeeds (when it throws, the answer is
  the 500 of the framework). In each case the answer does not depend on the payment
  headers, and neither the price feed nor verification is called.
\<close>

theorem bypass_grants_unpaid:
  "readX402ConfigFromEnv E = Inr cfg \<and> X402_DEV_BYPASS cfg \<longrightarrow>
     signals_daily E req =
       ([], c_json (JObj [(''ok'', JBool True), (''paid'', JBool False),
                          (''bypass'', JBool True), (''signal'', demoSignal E)]) 200 [])
     \<and> (topSignals E req = Inr rest \<longrightarrow>
          signals_polymarket_top E req =
            ([TopSignals],
             c_json (JObj ((''ok'', JBool True) # (''paid'', JBool False) # rest)) 200 []))
     \<and> (topSignals E req = Inl e \<longrightarrow>
          signals_polymarket_top E req = ([TopSignals], internal_server_error))"
  by (simp add: signals_daily_def signals_polymarket_top_def top_signals_response_def)

text \<open>
  A request that carries the reference of an unknown transaction and a malformed structured
  header is served by both handlers in bypass mode.
\<close>

theorem bypass_grants_unpaid_witness:
  "signals_daily (demo_env True (Inr [(''signals'', JArr [])]))
      (demo_request [''x-payment'' \<mapsto> ''zzz'', ''x-payment-tx'' \<mapsto> ''SigX''])
     = ([], c_json (JObj [(''ok'', JBool True), (''paid'', JBool False),
                          (''bypass'', JBool True), (''signal'', JStr ''signal'')]) 200 [])
   \<and> signals_polymarket_top (demo_env True (Inr [(''signals'', JArr [])]))
      (demo_request [''x-payment'' \<mapsto> ''zzz'', ''x-payment-tx'' \<mapsto> ''SigX''])
     = ([TopSignals],
        c_json (JObj [(''ok'', JBool True), (''paid'', JBool False), (''signals'', JArr [])]) 200 [])"
proof -
  let ?E = "demo_env True (Inr [(''signals'', JArr [])])"
  let ?r = "demo_request [''x-payment'' \<mapsto> ''zzz'', ''x-payment-tx'' \<mapsto> ''SigX'']"
  have h: "readX402ConfigFromEnv ?E = Inr (demo_cfg True) \<and> X402_DEV_BYPASS (demo_cfg True)"
    by (simp add: demo_env_def demo_cfg_def)
  have t: "topSignals ?E ?r = Inr [(''signals'', JArr [])]" "demoSignal ?E = JStr ''signal''"
    by (simp_all add: demo_env_def)
  from bypass_grants_unpaid [of ?E "demo_cfg True" ?r "[(''signals'', JArr [])]" "''x''"] h t
  show ?thesis by simp
qed

end
